theory Spec2Isabelle
  imports Complex_Main "HOL-Library.Sublist"
begin

section \<open>Values of the program\<close>

text \<open>
  The embedding follows \<^verbatim>\<open>src/expense_tracker.py\<close>, classes \<^verbatim>\<open>Expense\<close> and
  \<^verbatim>\<open>ExpenseTracker\<close>. A number of the program is modelled by its value, a rational
  (every Python int and every finite float is one); equality and order of numbers are
  those of their values. The program's \<^verbatim>\<open>+\<close> and \<^verbatim>\<open>*\<close> round when a float is
  involved: they are the parameters \<open>fadd\<close> and \<open>fmul\<close> of the methods that
  calculate, and nothing is assumed about them. Strings are lists of ASCII characters
  (a character above 127 is outside the embedding), the clock \<^verbatim>\<open>datetime.now()\<close> is a
  parameter \<open>now\<close> of every function that reads it.
\<close>

type_synonym arith = "rat \<Rightarrow> rat \<Rightarrow> rat"

datatype error =
    ValueError
  | TypeError
  | KeyError
  | JSONDecodeError
  | RequestException
  | NotModelled

text \<open>
  \<open>NotModelled\<close> is no exception of the program. It is the embedding's answer where
  the program goes on with values that the typed records below cannot hold: a load from a
  file whose field values are of another type than the record's fields, which the program
  stores unchecked. No theorem below speaks about such a load.
\<close>

datatype json =
    JNull
  | JBool bool
  | JNum rat
  | JStr string
  | JArr "json list"
  | JObj "(string \<times> json) list"

text \<open>What \<^verbatim>\<open>json.load\<close> finds in a file: a text that is no JSON document, or a document.\<close>

datatype file_data = NotJson | Json json

datatype dialog = BudgetAlert string | CurrencyConversionError error

subsection \<open>Strings\<close>

definition lower_char :: "char \<Rightarrow> char" where
  "lower_char c =
     (case map_of (zip ''ABCDEFGHIJKLMNOPQRSTUVWXYZ'' ''abcdefghijklmnopqrstuvwxyz'') c of
        Some d \<Rightarrow> d
      | None \<Rightarrow> c)"

definition lower :: "string \<Rightarrow> string" where
  "lower s = map lower_char s"

text \<open>Python's \<^verbatim>\<open>k in s\<close> on strings.\<close>

fun str_in :: "string \<Rightarrow> string \<Rightarrow> bool" where
  "str_in k [] = (k = [])"
| "str_in k (c # cs) = (take (length k) (c # cs) = k \<or> str_in k cs)"

subsection \<open>Dates\<close>

datatype datetime = Datetime (dt_year: int) (dt_month: int) (dt_day: int)

definition is_leap :: "int \<Rightarrow> bool" where
  "is_leap y = (y mod 4 = 0 \<and> (y mod 100 \<noteq> 0 \<or> y mod 400 = 0))"

definition days_in_month :: "int \<Rightarrow> int \<Rightarrow> int" where
  "days_in_month y m =
     (if m = 2 then (if is_leap y then 29 else 28)
      else if m = 4 \<or> m = 6 \<or> m = 9 \<or> m = 11 then 30 else 31)"

text \<open>The check of the \<^verbatim>\<open>datetime\<close> constructor.\<close>

definition valid_date :: "int \<Rightarrow> int \<Rightarrow> int \<Rightarrow> bool" where
  "valid_date y m d =
     (1 \<le> y \<and> y \<le> 9999 \<and> 1 \<le> m \<and> m \<le> 12 \<and> 1 \<le> d \<and> d \<le> days_in_month y m)"

definition mk_date :: "int \<Rightarrow> int \<Rightarrow> int \<Rightarrow> error + datetime" where
  "mk_date y m d = (if valid_date y m d then Inr (Datetime y m d) else Inl ValueError)"

text \<open>\<^verbatim>\<open>today.replace(year=..., month=..., day=...)\<close>: absent arguments keep the field.\<close>

definition replace :: "datetime \<Rightarrow> int option \<Rightarrow> int option \<Rightarrow> int option \<Rightarrow> error + datetime" where
  "replace t year month day =
     mk_date (case year of None \<Rightarrow> dt_year t | Some y \<Rightarrow> y)
             (case month of None \<Rightarrow> dt_month t | Some m \<Rightarrow> m)
             (case day of None \<Rightarrow> dt_day t | Some d \<Rightarrow> d)"

definition digit_char :: "int \<Rightarrow> char" where
  "digit_char n = ''0123456789'' ! nat n"

definition digit_val :: "char \<Rightarrow> int option" where
  "digit_val c = map_of (zip ''0123456789'' [0, 1, 2, 3, 4, 5, 6, 7, 8, 9]) c"

definition two_digits :: "int \<Rightarrow> string" where
  "two_digits n = [digit_char (n div 10), digit_char (n mod 10)]"

text \<open>\<^verbatim>\<open>strftime("%Y-%m-%d")\<close>, for the four-digit years on which every platform agrees.\<close>

definition strftime :: "datetime \<Rightarrow> string" where
  "strftime t =
     two_digits (dt_year t div 100) @ two_digits (dt_year t mod 100) @ ''-'' @
     two_digits (dt_month t) @ ''-'' @ two_digits (dt_day t)"

text \<open>
  \<^verbatim>\<open>datetime.strptime(s, "%Y-%m-%d")\<close>. The library matches
  \<^verbatim>\<open>\d\d\d\d\<close> for the year, \<^verbatim>\<open>1[0-2]|0[1-9]|[1-9]\<close> for the month and
  \<^verbatim>\<open>3[01]|[12]\d|0[1-9]|[1-9]| [1-9]\<close> for the day, refuses text left over, and
  builds the date, which checks it.
\<close>

definition parse_month :: "string \<Rightarrow> int option" where
  "parse_month s =
     (case s of
        [a] \<Rightarrow> (case digit_val a of Some x \<Rightarrow> if 1 \<le> x then Some x else None | None \<Rightarrow> None)
      | [a, b] \<Rightarrow>
          (case (digit_val a, digit_val b) of
             (Some x, Some y) \<Rightarrow>
               if (x = 1 \<and> y \<le> 2) \<or> (x = 0 \<and> 1 \<le> y) then Some (10 * x + y) else None
           | _ \<Rightarrow> None)
      | _ \<Rightarrow> None)"

definition parse_day :: "string \<Rightarrow> int option" where
  "parse_day s =
     (case s of
        [a] \<Rightarrow> (case digit_val a of Some x \<Rightarrow> if 1 \<le> x then Some x else None | None \<Rightarrow> None)
      | [a, b] \<Rightarrow>
          (if a = CHR '' '' then
             (case digit_val b of Some y \<Rightarrow> if 1 \<le> y then Some y else None | None \<Rightarrow> None)
           else
             (case (digit_val a, digit_val b) of
                (Some x, Some y) \<Rightarrow>
                  if (x = 3 \<and> y \<le> 1) \<or> x = 1 \<or> x = 2 \<or> (x = 0 \<and> 1 \<le> y)
                  then Some (10 * x + y) else None
              | _ \<Rightarrow> None))
      | _ \<Rightarrow> None)"

definition parse_year :: "string \<Rightarrow> int option" where
  "parse_year s =
     (case map digit_val s of
        [Some a, Some b, Some c, Some d] \<Rightarrow> Some (1000 * a + 100 * b + 10 * c + d)
      | _ \<Rightarrow> None)"

definition strptime :: "string \<Rightarrow> error + datetime" where
  "strptime s =
     (if length s < 5 \<or> s ! 4 \<noteq> CHR ''-'' then Inl ValueError
      else
        let rest = drop 5 s;
            ms = takeWhile (\<lambda>c. c \<noteq> CHR ''-'') rest;
            ds = drop (Suc (length ms)) rest
        in if length rest \<le> length ms then Inl ValueError
           else
             (case (parse_year (take 4 s), parse_month ms, parse_day ds) of
                (Some y, Some m, Some d) \<Rightarrow> mk_date y m d
              | _ \<Rightarrow> Inl ValueError))"

section \<open>Class Expense\<close>

record expense =
  amount :: rat
  category :: string
  description :: string
  date :: string
  payment_method :: string
  currency :: string

text \<open>
  \<^verbatim>\<open>Expense.__init__\<close>: a date that is absent or empty is replaced by today's.
\<close>

definition Expense ::
  "datetime \<Rightarrow> rat \<Rightarrow> string \<Rightarrow> string \<Rightarrow> string option \<Rightarrow> string \<Rightarrow> string \<Rightarrow> expense" where
  "Expense now amount' category' description' date' payment_method' currency' =
     \<lparr> amount = amount',
       category = category',
       description = description',
       date = (case date' of None \<Rightarrow> strftime now
               | Some d \<Rightarrow> if d \<noteq> [] then d else strftime now),
       payment_method = payment_method',
       currency = currency' \<rparr>"

definition to_dict :: "expense \<Rightarrow> (string \<times> json) list" where
  "to_dict e =
     [(''amount'', JNum (amount e)),
      (''category'', JStr (category e)),
      (''description'', JStr (description e)),
      (''date'', JStr (date e)),
      (''payment_method'', JStr (payment_method e)),
      (''currency'', JStr (currency e))]"

section \<open>Class ExpenseTracker\<close>

text \<open>
  The state is the object's fields (\<open>username\<close>, \<open>expenses\<close>, \<open>filename\<close>,
  \<open>budgets\<close>) together with what the methods reach outside the object: the files by
  name, the message boxes shown so far, and the URLs requested so far. A method takes the
  state and returns its outcome (the returned value, or the exception that left it) with
  the state it leaves behind. A dict is an association list with distinct keys, in
  insertion order.
\<close>

record state =
  username :: string
  expenses :: "expense list"
  filename :: string
  budgets :: "(string \<times> rat) list"
  files :: "string \<rightharpoonup> file_data"
  dialogs :: "dialog list"
  requests :: "string list"

text \<open>\<^verbatim>\<open>d[k] = v\<close>: an existing key keeps its place, a new key goes last.\<close>

fun dict_set :: "'k \<Rightarrow> 'v \<Rightarrow> ('k \<times> 'v) list \<Rightarrow> ('k \<times> 'v) list" where
  "dict_set k v [] = [(k, v)]"
| "dict_set k v (p # ps) = (if fst p = k then (k, v) # ps else p # dict_set k v ps)"

subsection \<open>Persistence\<close>

definition save_expenses :: "state \<Rightarrow> (error + unit) \<times> state" where
  "save_expenses s =
     (Inr (), s\<lparr>files := (files s)(filename s \<mapsto> Json (JArr (map (\<lambda>e. JObj (to_dict e)) (expenses s))))\<rparr>)"

text \<open>
  \<^verbatim>\<open>json.load\<close> builds a dict from the members of an object in their order: a key
  that is repeated keeps its first place and takes its last value.
\<close>

definition py_dict :: "('k \<times> 'v) list \<Rightarrow> ('k \<times> 'v) list" where
  "py_dict kvs = foldl (\<lambda>d kv. dict_set (fst kv) (snd kv) d) [] kvs"

definition obj_get :: "(string \<times> json) list \<Rightarrow> string \<Rightarrow> json option" where
  "obj_get kvs key = map_of (py_dict kvs) key"

text \<open>
  \<^verbatim>\<open>for e in data\<close>: a list gives its items, a dict its keys, a string its
  characters; nothing else can be iterated.
\<close>

definition py_iter :: "json \<Rightarrow> error + json list" where
  "py_iter data =
     (case data of
        JArr items \<Rightarrow> Inr items
      | JObj kvs \<Rightarrow> Inr (map (\<lambda>kv. JStr (fst kv)) (py_dict kvs))
      | JStr cs \<Rightarrow> Inr (map (\<lambda>c. JStr [c]) cs)
      | _ \<Rightarrow> Inl TypeError)"

definition truthy :: "json \<Rightarrow> bool" where
  "truthy j =
     (case j of
        JNull \<Rightarrow> False
      | JBool b \<Rightarrow> b
      | JNum x \<Rightarrow> x \<noteq> 0
      | JStr cs \<Rightarrow> cs \<noteq> []
      | JArr items \<Rightarrow> items \<noteq> []
      | JObj kvs \<Rightarrow> kvs \<noteq> [])"

text \<open>
  The record that \<^verbatim>\<open>Expense.__init__\<close> builds from the values of a file, when
  they have the types of the record's fields; \<open>None\<close> when one has not.
\<close>

definition str_field :: "string \<Rightarrow> json option \<Rightarrow> string option" where
  "str_field dflt j =
     (case j of None \<Rightarrow> Some dflt | Some (JStr cs) \<Rightarrow> Some cs | Some _ \<Rightarrow> None)"

definition Expense_of_values ::
  "datetime \<Rightarrow> json \<Rightarrow> json \<Rightarrow> json \<Rightarrow> json option \<Rightarrow> json option \<Rightarrow> json option
     \<Rightarrow> expense option" where
  "Expense_of_values now a c d dt p cur =
     (case (a, c, d, str_field ''Cash'' p, str_field ''INR'' cur) of
        (JNum a', JStr c', JStr d', Some p', Some cur') \<Rightarrow>
          (case dt of
             None \<Rightarrow> Some (Expense now a' c' d' None p' cur')
           | Some (JStr x) \<Rightarrow> Some (Expense now a' c' d' (Some x) p' cur')
           | Some j \<Rightarrow>
               if truthy j then None else Some (Expense now a' c' d' None p' cur'))
      | _ \<Rightarrow> None)"

text \<open>
  \<^verbatim>\<open>Expense(**e)\<close>: \<open>e\<close> must be a mapping, with no key that is not a parameter
  and with the three parameters that have no default; otherwise the call raises
  \<^verbatim>\<open>TypeError\<close>. The values themselves are not looked at.
\<close>

definition Expense_kwargs :: "datetime \<Rightarrow> json \<Rightarrow> error + expense option" where
  "Expense_kwargs now e =
     (case e of
        JObj kvs \<Rightarrow>
          if \<not> list_all (\<lambda>kv. fst kv \<in> set [''amount'', ''category'', ''description'',
                                          ''date'', ''payment_method'', ''currency'']) kvs
          then Inl TypeError
          else
            (case (obj_get kvs ''amount'', obj_get kvs ''category'', obj_get kvs ''description'') of
               (Some a, Some c, Some d) \<Rightarrow>
                 Inr (Expense_of_values now a c d (obj_get kvs ''date'')
                        (obj_get kvs ''payment_method'') (obj_get kvs ''currency''))
             | _ \<Rightarrow> Inl TypeError)
      | _ \<Rightarrow> Inl TypeError)"

text \<open>A list comprehension whose element expression may raise: the first exception leaves it.\<close>

fun map_raising :: "('a \<Rightarrow> error + 'b) \<Rightarrow> 'a list \<Rightarrow> error + 'b list" where
  "map_raising f [] = Inr []"
| "map_raising f (x # xs) =
     (case f x of
        Inl err \<Rightarrow> Inl err
      | Inr y \<Rightarrow> (case map_raising f xs of Inl err \<Rightarrow> Inl err | Inr ys \<Rightarrow> Inr (y # ys)))"

definition load_expenses :: "datetime \<Rightarrow> state \<Rightarrow> (error + unit) \<times> state" where
  "load_expenses now s =
     (case files s (filename s) of
        None \<Rightarrow> (Inr (), s)
      | Some NotJson \<Rightarrow> (Inl JSONDecodeError, s)
      | Some (Json data) \<Rightarrow>
          (case py_iter data of
             Inl err \<Rightarrow> (Inl err, s)
           | Inr items \<Rightarrow>
               (case map_raising (Expense_kwargs now) items of
                  Inl err \<Rightarrow> (Inl err, s)
                | Inr built \<Rightarrow>
                    (case those built of
                       None \<Rightarrow> (Inl NotModelled, s)
                     | Some es \<Rightarrow> (Inr (), s\<lparr>expenses := es\<rparr>)))))"

definition budget_file :: "state \<Rightarrow> string" where
  "budget_file s = username s @ ''_budgets.json''"

definition num_entry :: "string \<times> json \<Rightarrow> (string \<times> rat) option" where
  "num_entry kv = (case snd kv of JNum x \<Rightarrow> Some (fst kv, x) | _ \<Rightarrow> None)"

definition load_budgets :: "state \<Rightarrow> (error + unit) \<times> state" where
  "load_budgets s =
     (case files s (budget_file s) of
        None \<Rightarrow> (Inr (), s)
      | Some NotJson \<Rightarrow> (Inl JSONDecodeError, s)
      | Some (Json (JObj kvs)) \<Rightarrow>
          (case those (map num_entry (py_dict kvs)) of
             None \<Rightarrow> (Inl NotModelled, s)
           | Some bs \<Rightarrow> (Inr (), s\<lparr>budgets := bs\<rparr>))
      | Some (Json _) \<Rightarrow> (Inl NotModelled, s))"

definition save_budgets :: "state \<Rightarrow> (error + unit) \<times> state" where
  "save_budgets s =
     (Inr (), s\<lparr>files := (files s)(budget_file s \<mapsto> Json (JObj (map (\<lambda>kv. (fst kv, JNum (snd kv))) (budgets s))))\<rparr>)"

text \<open>
  \<^verbatim>\<open>ExpenseTracker.__init__\<close>, run in a world \<open>w\<close> (of which only the files, the
  dialogs and the requests are read): the object exists only if no load raises.
\<close>

definition new_tracker :: "string \<Rightarrow> state \<Rightarrow> state" where
  "new_tracker name w =
     w\<lparr>username := name, expenses := [], filename := name @ ''_expenses.json'', budgets := []\<rparr>"

definition ExpenseTracker :: "datetime \<Rightarrow> string \<Rightarrow> state \<Rightarrow> (error + unit) \<times> state" where
  "ExpenseTracker now name w =
     (case load_expenses now (new_tracker name w) of
        (Inl err, s) \<Rightarrow> (Inl err, s)
      | (Inr u, s) \<Rightarrow> load_budgets (s\<lparr>budgets := []\<rparr>))"

subsection \<open>Queries\<close>

text \<open>A list comprehension whose condition may raise.\<close>

fun filter_raising :: "('a \<Rightarrow> error + bool) \<Rightarrow> 'a list \<Rightarrow> error + 'a list" where
  "filter_raising p [] = Inr []"
| "filter_raising p (x # xs) =
     (case p x of
        Inl err \<Rightarrow> Inl err
      | Inr b \<Rightarrow>
          (case filter_raising p xs of
             Inl err \<Rightarrow> Inl err
           | Inr ys \<Rightarrow> Inr (if b then x # ys else ys)))"

definition year_is :: "int \<Rightarrow> expense \<Rightarrow> error + bool" where
  "year_is year e =
     (case strptime (date e) of Inl err \<Rightarrow> Inl err | Inr t \<Rightarrow> Inr (dt_year t = year))"

definition month_is :: "int \<Rightarrow> expense \<Rightarrow> error + bool" where
  "month_is month e =
     (case strptime (date e) of Inl err \<Rightarrow> Inl err | Inr t \<Rightarrow> Inr (dt_month t = month))"

text \<open>
  \<^verbatim>\<open>filter_expenses\<close> tests each argument with \<^verbatim>\<open>if arg:\<close>, so \<open>None\<close>, the
  number 0 and the empty string all switch the predicate off.
\<close>

definition given_int :: "int option \<Rightarrow> bool" where
  "given_int a = (case a of None \<Rightarrow> False | Some n \<Rightarrow> n \<noteq> 0)"

definition given_str :: "string option \<Rightarrow> bool" where
  "given_str a = (case a of None \<Rightarrow> False | Some cs \<Rightarrow> cs \<noteq> [])"

definition filter_expenses ::
  "int option \<Rightarrow> int option \<Rightarrow> string option \<Rightarrow> string option \<Rightarrow> state
     \<Rightarrow> (error + expense list) \<times> state" where
  "filter_expenses year month category' payment_method' s =
     (let filtered = Inr (expenses s);
          filtered = (if given_int year
                      then (case filtered of Inl err \<Rightarrow> Inl err
                            | Inr xs \<Rightarrow> filter_raising (year_is (the year)) xs)
                      else filtered);
          filtered = (if given_int month
                      then (case filtered of Inl err \<Rightarrow> Inl err
                            | Inr xs \<Rightarrow> filter_raising (month_is (the month)) xs)
                      else filtered);
          filtered = (if given_str category'
                      then (case filtered of Inl err \<Rightarrow> Inl err
                            | Inr xs \<Rightarrow> Inr [exp \<leftarrow> xs. Some (category exp) = category'])
                      else filtered);
          filtered = (if given_str payment_method'
                      then (case filtered of Inl err \<Rightarrow> Inl err
                            | Inr xs \<Rightarrow> Inr [exp \<leftarrow> xs. Some (payment_method exp) = payment_method'])
                      else filtered)
      in (filtered, s))"

text \<open>\<^verbatim>\<open>summary.get(k, 0)\<close>\<close>

definition dict_get :: "('k \<times> rat) list \<Rightarrow> 'k \<Rightarrow> rat \<Rightarrow> rat" where
  "dict_get d k dflt = (case map_of d k of None \<Rightarrow> dflt | Some v \<Rightarrow> v)"

definition get_summary ::
  "arith \<Rightarrow> int option \<Rightarrow> int option \<Rightarrow> state
     \<Rightarrow> (error + (string \<times> rat) list) \<times> state" where
  "get_summary fadd year month s =
     (case filter_expenses year month None None s of
        (Inl err, s') \<Rightarrow> (Inl err, s')
      | (Inr filtered_expenses, s') \<Rightarrow>
          (Inr (foldl (\<lambda>summary exp.
                   dict_set (category exp)
                     (fadd (dict_get summary (category exp) 0) (amount exp)) summary)
                 [] filtered_expenses), s'))"

definition search_expenses :: "string \<Rightarrow> state \<Rightarrow> (error + expense list) \<times> state" where
  "search_expenses keyword s =
     (Inr [exp \<leftarrow> expenses s.
             str_in (lower keyword) (lower (description exp)) \<or>
             str_in (lower keyword) (lower (category exp))], s)"

definition filter_by_category :: "string \<Rightarrow> state \<Rightarrow> (error + expense list) \<times> state" where
  "filter_by_category category' s =
     (Inr [exp \<leftarrow> expenses s. lower (category exp) = lower category'], s)"

text \<open>Python's \<^verbatim>\<open>a <= b\<close> on strings: lexicographic, by character code.\<close>

fun str_le :: "string \<Rightarrow> string \<Rightarrow> bool" where
  "str_le [] bs = True"
| "str_le (a # as) [] = False"
| "str_le (a # as) (b # bs) =
     ((of_char a :: nat) < of_char b \<or> (a = b \<and> str_le as bs))"

definition filter_by_date_range ::
  "string \<Rightarrow> string \<Rightarrow> state \<Rightarrow> (error + expense list) \<times> state" where
  "filter_by_date_range start_date end_date s =
     (Inr [exp \<leftarrow> expenses s. str_le start_date (date exp) \<and> str_le (date exp) end_date], s)"

subsection \<open>Mutations\<close>

definition delete_expense ::
  "string \<Rightarrow> string \<Rightarrow> rat \<Rightarrow> string \<Rightarrow> state \<Rightarrow> (error + unit) \<times> state" where
  "delete_expense date' category' amount' description' s =
     save_expenses
       (s\<lparr>expenses :=
            [exp \<leftarrow> expenses s.
               \<not> (date exp = date' \<and> category exp = category' \<and>
                  amount exp = amount' \<and> description exp = description')]\<rparr>)"

definition set_budget :: "string \<Rightarrow> rat \<Rightarrow> state \<Rightarrow> (error + unit) \<times> state" where
  "set_budget category' amount' s =
     save_budgets (s\<lparr>budgets := dict_set category' amount' (budgets s)\<rparr>)"

text \<open>\<^verbatim>\<open>sum(...)\<close> adds from the left, starting from 0.\<close>

definition py_sum :: "arith \<Rightarrow> rat list \<Rightarrow> rat" where
  "py_sum fadd xs = foldl fadd 0 xs"

definition check_budget ::
  "arith \<Rightarrow> datetime \<Rightarrow> expense \<Rightarrow> state \<Rightarrow> (error + unit) \<times> state" where
  "check_budget fadd now expense s =
     (let category' = category expense in
      case map_of (budgets s) category' of
        None \<Rightarrow> (Inr (), s)
      | Some limit \<Rightarrow>
          (case filter_expenses None (Some (dt_month now)) (Some category') None s of
             (Inl err, s') \<Rightarrow> (Inl err, s')
           | (Inr xs, s') \<Rightarrow>
               (let spent = py_sum fadd (map amount xs) in
                if spent > limit
                then (Inr (), s'\<lparr>dialogs := dialogs s' @ [BudgetAlert category']\<rparr>)
                else (Inr (), s'))))"

definition add_expense ::
  "arith \<Rightarrow> datetime \<Rightarrow> expense \<Rightarrow> state \<Rightarrow> (error + unit) \<times> state" where
  "add_expense fadd now expense s =
     (case save_expenses (s\<lparr>expenses := expenses s @ [expense]\<rparr>) of
        (Inl err, s') \<Rightarrow> (Inl err, s')
      | (Inr u, s') \<Rightarrow> check_budget fadd now expense s')"

definition add_recurring_expense ::
  "arith \<Rightarrow> datetime \<Rightarrow> rat \<Rightarrow> string \<Rightarrow> string \<Rightarrow> int \<Rightarrow> state
     \<Rightarrow> (error + unit) \<times> state" where
  "add_recurring_expense fadd today amount' category' description' day_of_month s =
     (let target =
            (if dt_day today \<le> day_of_month
             then replace today None None (Some day_of_month)
             else
               let next_month = dt_month today mod 12 + 1;
                   next_year = dt_year today + (if next_month = 1 then 1 else 0)
               in replace today (Some next_year) (Some next_month) (Some day_of_month))
      in case target of
           Inl err \<Rightarrow> (Inl err, s)
         | Inr t \<Rightarrow>
             add_expense fadd today
               (Expense today amount' category' description' (Some (strftime t)) ''Cash'' ''INR'') s)"

subsection \<open>Currency conversion\<close>

text \<open>
  The rate service is a parameter: for a URL it gives the exception of
  \<^verbatim>\<open>requests.get\<close>, or the body of the response, which \<^verbatim>\<open>response.json()\<close>
  decodes or refuses.
\<close>

type_synonym rate_service = "string \<Rightarrow> error + file_data"

text \<open>\<^verbatim>\<open>data[key]\<close> with a string key.\<close>

definition subscript :: "json \<Rightarrow> string \<Rightarrow> error + json" where
  "subscript data key =
     (case data of
        JObj kvs \<Rightarrow> (case obj_get kvs key of None \<Rightarrow> Inl KeyError | Some v \<Rightarrow> Inr v)
      | _ \<Rightarrow> Inl TypeError)"

text \<open>
  The amount handed to \<^verbatim>\<open>convert_currency\<close> is a Python int or a float; which
  of the two decides what \<^verbatim>\<open>*\<close> does with a rate that is no number.
\<close>

datatype number = PyInt int | PyFloat rat

definition number_value :: "number \<Rightarrow> rat" where
  "number_value n = (case n of PyInt i \<Rightarrow> of_int i | PyFloat x \<Rightarrow> x)"

text \<open>
  \<^verbatim>\<open>amount * rate\<close>. With a number the program multiplies (\<open>fmul\<close>, of which
  nothing is assumed); a bool counts as 1 or 0; an int repeats a string or a list (not at
  all when it is negative), a float cannot; \<^verbatim>\<open>None\<close> and a dict cannot be
  multiplied.
\<close>

definition py_mul :: "(number \<Rightarrow> rat \<Rightarrow> rat) \<Rightarrow> number \<Rightarrow> json \<Rightarrow> error + json" where
  "py_mul fmul amount' rate =
     (case rate of
        JNum r \<Rightarrow> Inr (JNum (fmul amount' r))
      | JBool b \<Rightarrow> Inr (JNum (if b then number_value amount' else 0))
      | JStr cs \<Rightarrow>
          (case amount' of
             PyInt n \<Rightarrow> Inr (JStr (concat (replicate (nat n) cs)))
           | PyFloat x \<Rightarrow> Inl TypeError)
      | JArr items \<Rightarrow>
          (case amount' of
             PyInt n \<Rightarrow> Inr (JArr (concat (replicate (nat n) items)))
           | PyFloat x \<Rightarrow> Inl TypeError)
      | _ \<Rightarrow> Inl TypeError)"

definition lookup_rate ::
  "(number \<Rightarrow> rat \<Rightarrow> rat) \<Rightarrow> rate_service \<Rightarrow> string \<Rightarrow> number \<Rightarrow> string \<Rightarrow> error + json" where
  "lookup_rate fmul service url amount' to_currency =
     (case service url of
        Inl err \<Rightarrow> Inl err
      | Inr NotJson \<Rightarrow> Inl JSONDecodeError
      | Inr (Json data) \<Rightarrow>
          (case subscript data ''rates'' of
             Inl err \<Rightarrow> Inl err
           | Inr rates \<Rightarrow>
               (case subscript rates to_currency of
                  Inl err \<Rightarrow> Inl err
                | Inr rate \<Rightarrow> py_mul fmul amount' rate)))"


definition convert_currency ::
  "(number \<Rightarrow> rat \<Rightarrow> rat) \<Rightarrow> rate_service \<Rightarrow> number \<Rightarrow> string \<Rightarrow> string \<Rightarrow> state
     \<Rightarrow> (error + json option) \<times> state" where
  "convert_currency fmul service amount' from_currency to_currency s =
     (if from_currency = to_currency then (Inr (Some (JNum (number_value amount'))), s)
      else
        let url = ''https://api.exchangerate-api.com/v4/latest/'' @ from_currency;
            s' = s\<lparr>requests := requests s @ [url]\<rparr>
        in case lookup_rate fmul service url amount' to_currency of
             Inr v \<Rightarrow> (Inr (Some v), s')
           | Inl err \<Rightarrow> (Inr None, s'\<lparr>dialogs := dialogs s' @ [CurrencyConversionError err]\<rparr>))"

section \<open>Sample ledgers\<close>

text \<open>Concrete records and states on which the theorems below are exercised.\<close>

definition lunch :: expense where
  "lunch = \<lparr>amount = 60, category = ''Food'', description = ''lunch'', date = ''2025-11-20'',
     payment_method = ''Cash'', currency = ''INR''\<rparr>"

definition taxi :: expense where
  "taxi = \<lparr>amount = 25, category = ''Travel'', description = ''Taxi to airport'',
     date = ''2026-11-01'', payment_method = ''Card'', currency = ''INR''\<rparr>"

definition world0 :: state where
  "world0 = \<lparr>username = [], expenses = [], filename = [], budgets = [],
     files = Map.empty, dialogs = [], requests = []\<rparr>"

definition ledger2 :: state where
  "ledger2 = (new_tracker ''asha'' world0)\<lparr>expenses := [lunch, taxi]\<rparr>"

definition snack :: expense where
  "snack = \<lparr>amount = 50, category = ''Food'', description = ''snack'', date = ''2026-11-03'',
     payment_method = ''Cash'', currency = ''INR''\<rparr>"

definition budgeted :: state where
  "budgeted = (new_tracker ''asha'' world0)\<lparr>expenses := [lunch], budgets := [(''Food'', 100)]\<rparr>"

definition abc :: state where
  "abc = (new_tracker ''asha'' world0)\<lparr>expenses :=
     [\<lparr>amount = 10, category = ''A'', description = ''first'', date = ''2026-11-01'',
        payment_method = ''Cash'', currency = ''INR''\<rparr>,
      \<lparr>amount = 20, category = ''A'', description = ''second'', date = ''2026-11-02'',
        payment_method = ''Cash'', currency = ''INR''\<rparr>,
      \<lparr>amount = 5, category = ''B'', description = ''third'', date = ''2026-11-03'',
        payment_method = ''Card'', currency = ''INR''\<rparr>,
      \<lparr>amount = 7, category = ''B'', description = ''older'', date = ''2026-10-03'',
        payment_method = ''Card'', currency = ''INR''\<rparr>]\<rparr>"

text \<open>An addition that rounds, and a ledger on which the rounding shows.\<close>

definition floor_add :: arith where
  "floor_add x y = of_int \<lfloor>x + y\<rfloor>"

definition halves :: state where
  "halves = (new_tracker ''asha'' world0)\<lparr>expenses :=
     [\<lparr>amount = 1 / 2, category = ''A'', description = ''first'', date = ''2026-11-01'',
        payment_method = ''Cash'', currency = ''INR''\<rparr>,
      \<lparr>amount = 1 / 2, category = ''A'', description = ''second'', date = ''2026-11-02'',
        payment_method = ''Cash'', currency = ''INR''\<rparr>]\<rparr>"



definition corrupt :: state where
  "corrupt = world0\<lparr>files := [''asha_expenses.json'' \<mapsto> NotJson]\<rparr>"

definition empty_object :: state where
  "empty_object = world0\<lparr>files := [''asha_expenses.json'' \<mapsto> Json (JObj [])]\<rparr>"

definition half_good :: state where
  "half_good = world0\<lparr>files := [''asha_expenses.json'' \<mapsto>
     Json (JArr [JObj (to_dict lunch), JObj [(''amount'', JNum 3), (''category'', JStr ''Food'')]])]\<rparr>"

text \<open>
  The date a recurring expense is due, as the specification words it: the given day of
  this month when that day is not before today's, else the same day of the following
  month, in the following year after December. It is compared below with the date that
  \<^verbatim>\<open>add_recurring_expense\<close> computes.
\<close>

definition recurring_target :: "datetime \<Rightarrow> int \<Rightarrow> datetime" where
  "recurring_target today day_of_month =
     (if dt_day today \<le> day_of_month
      then Datetime (dt_year today) (dt_month today) day_of_month
      else if dt_month today = 12 then Datetime (dt_year today + 1) 1 day_of_month
      else Datetime (dt_year today) (dt_month today + 1) day_of_month)"

text \<open>A date that exists in the calendar.\<close>

definition is_date :: "datetime \<Rightarrow> bool" where
  "is_date t = valid_date (dt_year t) (dt_month t) (dt_day t)"

text \<open>
  Matching without regard to case, as the specification words it, for ASCII text: two
  characters are the same letter when they are equal, or one is a capital and the other
  the small letter at the same place of the alphabet; a keyword occurs in a text when
  some contiguous part of the text has, letter for letter, the letters of the keyword.
  They are compared below with what \<^verbatim>\<open>search_expenses\<close> computes with
  \<^verbatim>\<open>lower()\<close> and \<^verbatim>\<open>in\<close>.
\<close>

definition capitals :: string where
  "capitals = ''ABCDEFGHIJKLMNOPQRSTUVWXYZ''"





section \<open>Properties\<close>

subsection \<open>Strings\<close>



text \<open>
  \<^verbatim>\<open>lower()\<close> sends two characters to the same character exactly when they are the
  same letter.
\<close>

lemma distinct_capitals: "distinct capitals"
  by (simp add: capitals_def)












subsection \<open>Dicts\<close>

lemma map_of_dict_set: "map_of (dict_set k v ps) = (map_of ps)(k \<mapsto> v)"
  by (induction ps) auto

lemma keys_dict_set: "fst ` set (dict_set k v ps) = insert k (fst ` set ps)"
  by (induction ps) auto

lemma distinct_dict_set: "distinct (map fst ps) \<Longrightarrow> distinct (map fst (dict_set k v ps))"
  by (induction ps) (auto simp: keys_dict_set)

lemma py_dict_loop_keys:
  "fst ` set (foldl (\<lambda>d kv. dict_set (fst kv) (snd kv) d) acc kvs) = fst ` set acc \<union> fst ` set kvs"
  by (induction kvs arbitrary: acc) (auto simp: keys_dict_set)

lemma keys_py_dict: "fst ` set (py_dict kvs) = fst ` set kvs"
  using py_dict_loop_keys [of "[]" kvs] by (simp add: py_dict_def)

lemma obj_get_None: "obj_get kvs key = None \<longleftrightarrow> key \<notin> fst ` set kvs"
  by (simp add: obj_get_def map_of_eq_None_iff keys_py_dict)

lemma py_dict_loop_map_of:
  "map_of (foldl (\<lambda>d kv. dict_set (fst kv) (snd kv) d) acc kvs) =
     map_of acc ++ map_of (rev kvs)"
  by (induction kvs arbitrary: acc) (auto simp: map_of_dict_set fun_eq_iff map_add_def
      split: option.splits)

text \<open>Of a repeated key the last value counts.\<close>

lemma obj_get_last: "obj_get kvs key = map_of (rev kvs) key"
  using py_dict_loop_map_of [of "[]" kvs] by (simp add: obj_get_def py_dict_def)

subsection \<open>Search\<close>



subsection \<open>What the methods leave alone\<close>

lemma filter_expenses_state: "snd (filter_expenses year month c p s) = s"
  by (simp add: filter_expenses_def Let_def)

lemma check_budget_frame:
  "expenses (snd (check_budget fadd now e s)) = expenses s"
  "budgets (snd (check_budget fadd now e s)) = budgets s"
  "files (snd (check_budget fadd now e s)) = files s"
  "filename (snd (check_budget fadd now e s)) = filename s"
  "username (snd (check_budget fadd now e s)) = username s"
  by (auto simp: check_budget_def Let_def filter_expenses_def
      split: option.splits sum.splits prod.splits)

lemma add_expense_frame:
  "expenses (snd (add_expense fadd now e s)) = expenses s @ [e]"
  "budgets (snd (add_expense fadd now e s)) = budgets s"
  "filename (snd (add_expense fadd now e s)) = filename s"
  "username (snd (add_expense fadd now e s)) = username s"
  "files (snd (add_expense fadd now e s)) =
     (files s)(filename s \<mapsto> Json (JArr (map (\<lambda>x. JObj (to_dict x)) (expenses s @ [e]))))"
  by (simp_all add: add_expense_def save_expenses_def check_budget_frame)

lemma get_summary_state: "snd (get_summary fadd year month s) = s"
proof (cases "filter_expenses year month None None s")
  case (Pair r s')
  with filter_expenses_state [of year month None None s] have "s' = s" by simp
  with Pair show ?thesis by (cases r) (simp_all add: get_summary_def)
qed

lemma convert_currency_frame:
  "expenses (snd (convert_currency fmul service n from_currency to_currency s)) = expenses s"
  "budgets (snd (convert_currency fmul service n from_currency to_currency s)) = budgets s"
  "files (snd (convert_currency fmul service n from_currency to_currency s)) = files s"
  by (simp_all add: convert_currency_def Let_def split: sum.splits)

text \<open>
  C10. The five queries \<^verbatim>\<open>search_expenses\<close>, \<^verbatim>\<open>filter_by_category\<close>,
  \<^verbatim>\<open>filter_by_date_range\<close>, \<^verbatim>\<open>filter_expenses\<close> and \<^verbatim>\<open>get_summary\<close> return
  the state they were given, whatever their arguments and whether or not they raise: the
  ledger, the budget map and every file are as before. \<^verbatim>\<open>convert_currency\<close> touches
  none of the three either. The writers are \<^verbatim>\<open>add_expense\<close>,
  \<^verbatim>\<open>delete_expense\<close> and \<^verbatim>\<open>set_budget\<close>: each rewrites its file from the updated
  ledger or budget map.
\<close>

theorem queries_leave_state_unchanged:
  "snd (search_expenses keyword s) = s
   \<and> snd (filter_by_category c s) = s
   \<and> snd (filter_by_date_range start_date end_date s) = s
   \<and> snd (filter_expenses year month cat pm s) = s
   \<and> snd (get_summary fadd year month s) = s
   \<and> expenses (snd (convert_currency fmul service n from_currency to_currency s)) = expenses s
   \<and> budgets (snd (convert_currency fmul service n from_currency to_currency s)) = budgets s
   \<and> files (snd (convert_currency fmul service n from_currency to_currency s)) = files s
   \<and> expenses (snd (add_expense fadd now e s)) = expenses s @ [e]
   \<and> files (snd (add_expense fadd now e s)) (filename s) =
       Some (Json (JArr (map (\<lambda>x. JObj (to_dict x)) (expenses s @ [e]))))
   \<and> files (snd (delete_expense d c a t s)) (filename s) =
       Some (Json (JArr (map (\<lambda>x. JObj (to_dict x)) (expenses (snd (delete_expense d c a t s))))))
   \<and> budgets (snd (set_budget c a s)) = dict_set c a (budgets s)
   \<and> files (snd (set_budget c a s)) (budget_file s) =
       Some (Json (JObj (map (\<lambda>kv. (fst kv, JNum (snd kv))) (dict_set c a (budgets s)))))"
  by (simp add: search_expenses_def filter_by_category_def filter_by_date_range_def
      get_summary_state filter_expenses_state add_expense_frame convert_currency_frame
      delete_expense_def save_expenses_def set_budget_def save_budgets_def budget_file_def)

subsection \<open>Deletion\<close>

text \<open>
  C5. \<^verbatim>\<open>delete_expense(date, category, amount, description)\<close> never raises and keeps,
  in their order, exactly the records that differ from the tuple in one of the four
  fields; every matching record goes, however many there are. With no matching record the
  ledger is the same list as before, and a second deletion of the same tuple changes
  nothing more: it returns the outcome and the state of the first.
\<close>

theorem delete_expense_exact:
  "fst (delete_expense d c a t s) = Inr ()
   \<and> expenses (snd (delete_expense d c a t s)) =
       [e \<leftarrow> expenses s. \<not> (date e = d \<and> category e = c \<and> amount e = a \<and> description e = t)]
   \<and> subseq (expenses (snd (delete_expense d c a t s))) (expenses s)
   \<and> ((\<forall>e \<in> set (expenses s).
          \<not> (date e = d \<and> category e = c \<and> amount e = a \<and> description e = t))
        \<longrightarrow> expenses (snd (delete_expense d c a t s)) = expenses s)
   \<and> delete_expense d c a t (snd (delete_expense d c a t s)) = delete_expense d c a t s"
  by (auto simp: delete_expense_def save_expenses_def filter_id_conv)

theorem delete_expense_exact_witness:
  "[e \<leftarrow> expenses ledger2.
      date e = ''2026-11-01'' \<and> category e = ''Food'' \<and> amount e = 25 \<and>
      description e = ''lunch''] = []
   \<and> expenses (snd (delete_expense ''2026-11-01'' ''Food'' 25 ''lunch'' ledger2)) = [lunch, taxi]
   \<and> expenses (snd (delete_expense ''2025-11-20'' ''Food'' 60 ''lunch''
        (ledger2\<lparr>expenses := [lunch, taxi, lunch]\<rparr>))) = [taxi]"
  using delete_expense_exact [of "''2026-11-01''" "''Food''" 25 "''lunch''" ledger2]
    delete_expense_exact [of "''2025-11-20''" "''Food''" 60 "''lunch''"
      "ledger2\<lparr>expenses := [lunch, taxi, lunch]\<rparr>"]
  by (simp add: ledger2_def new_tracker_def world0_def lunch_def taxi_def)

subsection \<open>Matching by category\<close>

text \<open>
  C2. \<^verbatim>\<open>filter_by_category\<close> compares lower-cased categories, so the keyword
  \<^verbatim>\<open>food\<close> selects the record of category \<^verbatim>\<open>Food\<close>. The category predicate of
  \<^verbatim>\<open>filter_expenses\<close> compares with \<^verbatim>\<open>==\<close>: on the same ledger the argument
  \<^verbatim>\<open>food\<close> selects nothing, and only \<^verbatim>\<open>Food\<close> selects the record.
\<close>

theorem filter_expenses_category_exact_case:
  "fst (filter_by_category ''food'' ledger2) = Inr [lunch]
   \<and> fst (filter_expenses None None (Some ''food'') None ledger2) = Inr []
   \<and> fst (filter_expenses None None (Some ''Food'') None ledger2) = Inr [lunch]"
  by (simp add: filter_by_category_def filter_expenses_def given_int_def given_str_def
      ledger2_def new_tracker_def world0_def lunch_def taxi_def lower_def lower_char_def)

subsection \<open>The budget check\<close>

text \<open>
  What \<^verbatim>\<open>check_budget\<close> computes when every stored date parses: the amounts of the
  records of the new record's category whose month is the current month, of whatever
  year, are added up from the left, and the alert is shown when the result is strictly
  above the ceiling.
\<close>

lemma filter_raising_total:
  "(\<And>x. x \<in> set xs \<Longrightarrow> \<exists>b. p x = Inr b) \<Longrightarrow>
   filter_raising p xs = Inr [x \<leftarrow> xs. p x = Inr True]"
proof (induction xs)
  case Nil
  show ?case by simp
next
  case (Cons x xs)
  from Cons.prems [of x] obtain b where b: "p x = Inr b" by auto
  from Cons.IH Cons.prems have "filter_raising p xs = Inr [x \<leftarrow> xs. p x = Inr True]" by simp
  with b show ?case by simp
qed

lemma check_budget_fires_iff:
  assumes dates: "\<And>e. e \<in> set (expenses s) \<Longrightarrow> \<exists>t. strptime (date e) = Inr t"
    and limit: "map_of (budgets s) (category r) = Some limit"
    and cat: "category r \<noteq> []" and now: "dt_month now \<noteq> 0"
  shows "check_budget fadd now r s =
     (Inr (),
      if limit < py_sum fadd (map amount
           [e \<leftarrow> expenses s. month_is (dt_month now) e = Inr True \<and> category e = category r])
      then s\<lparr>dialogs := dialogs s @ [BudgetAlert (category r)]\<rparr> else s)"
proof -
  have "\<And>e. e \<in> set (expenses s) \<Longrightarrow> \<exists>b. month_is (dt_month now) e = Inr b"
    using dates by (fastforce simp: month_is_def)
  then have "filter_raising (month_is (dt_month now)) (expenses s) =
      Inr [e \<leftarrow> expenses s. month_is (dt_month now) e = Inr True]"
    by (rule filter_raising_total)
  then have "filter_expenses None (Some (dt_month now)) (Some (category r)) None s =
      (Inr [e \<leftarrow> expenses s. month_is (dt_month now) e = Inr True \<and> category e = category r], s)"
    using cat now by (simp add: filter_expenses_def given_int_def given_str_def)
  with limit show ?thesis
    by (simp add: check_budget_def Let_def)
qed

text \<open>
  C1. On 2026-11-03, with a ceiling of 100 on \<^verbatim>\<open>Food\<close> and a ledger holding one
  \<^verbatim>\<open>Food\<close> record of 60 dated 2025-11-20, adding a \<^verbatim>\<open>Food\<close> record of 50 dated
  2026-11-03 shows the budget alert: \<^verbatim>\<open>check_budget\<close> filters by month alone and
  counts the record of November 2025. The \<^verbatim>\<open>Food\<close> records of November 2026 are the
  new one only, 50 in all, which does not exceed 100. The only additions made are 0 + 60,
  60 + 50 and 0 + 50, which the program's arithmetic carries out exactly.
\<close>

theorem check_budget_ignores_year:
  assumes "fadd 0 60 = 60" and "fadd 60 50 = 110" and "fadd 0 50 = 50"
  shows "dialogs (snd (add_expense fadd (Datetime 2026 11 3) snack budgeted)) =
           [BudgetAlert ''Food'']
   \<and> fst (filter_expenses (Some 2026) (Some 11) (Some ''Food'') None
            (snd (add_expense fadd (Datetime 2026 11 3) snack budgeted))) = Inr [snack]
   \<and> amount snack \<le> 100
   \<and> py_sum fadd (map amount [snack]) \<le> 100"
  using assms
  by (simp add: add_expense_def save_expenses_def check_budget_def filter_expenses_def Let_def
      given_int_def given_str_def year_is_def month_is_def py_sum_def
      strptime_def parse_year_def parse_month_def parse_day_def digit_val_def mk_date_def
      valid_date_def days_in_month_def is_leap_def
      budgeted_def new_tracker_def world0_def lunch_def snack_def)

theorem check_budget_ignores_year_witness:
  "(0::rat) + 60 = 60 \<and> (60::rat) + 50 = 110 \<and> (0::rat) + 50 = 50
   \<and> dialogs (snd (add_expense (+) (Datetime 2026 11 3) snack budgeted)) = [BudgetAlert ''Food'']
   \<and> py_sum (+) (map amount [snack]) = 50"
  using check_budget_ignores_year [of "(+)"]
  by (simp add: py_sum_def snack_def)

subsection \<open>Summary\<close>

lemma summary_loop_keys:
  "fst ` set (foldl (\<lambda>summary e. dict_set (category e)
        (fadd (dict_get summary (category e) 0) (amount e)) summary) acc xs)
     = fst ` set acc \<union> category ` set xs"
  by (induction xs arbitrary: acc) (auto simp: keys_dict_set)

lemma summary_loop_distinct:
  "distinct (map fst acc) \<Longrightarrow>
   distinct (map fst (foldl (\<lambda>summary e. dict_set (category e)
        (fadd (dict_get summary (category e) 0) (amount e)) summary) acc xs))"
  by (induction xs arbitrary: acc) (auto simp: distinct_dict_set)

text \<open>
  The value under a category is built by adding that category's amounts, in the order of
  the list, to what the dict held before; the other records leave it alone.
\<close>

lemma summary_loop_total:
  "dict_get (foldl (\<lambda>summary e. dict_set (category e)
        (fadd (dict_get summary (category e) 0) (amount e)) summary) acc xs) c 0
     = foldl fadd (dict_get acc c 0) (map amount [e \<leftarrow> xs. category e = c])"
  by (induction xs arbitrary: acc) (auto simp: dict_get_def map_of_dict_set)

lemma py_sum_exact: "py_sum (+) xs = sum_list xs"
proof -
  have "foldl (+) a xs = a + sum_list xs" for a :: rat
    by (induction xs arbitrary: a) (simp_all add: add.assoc)
  from this [of 0] show ?thesis by (simp add: py_sum_def)
qed

text \<open>
  C3. When \<^verbatim>\<open>filter_expenses(year, month)\<close> returns the list \<open>xs\<close>,
  \<^verbatim>\<open>get_summary(year, month)\<close> returns a dict with one key for each category that
  occurs in \<open>xs\<close> and no other key, and the value at a category is the program's sum of
  the amounts of the records of \<open>xs\<close> bearing it: starting from 0, each of them is
  added once, in the order of \<open>xs\<close>, with the program's own addition, and no other
  record contributes. When the filter raises (a stored date that does not parse), the
  summary raises the same exception. The arguments may be absent.
\<close>

theorem get_summary_totals:
  "(fst (filter_expenses year month None None s) = Inr xs \<longrightarrow>
      (\<exists>summary. fst (get_summary fadd year month s) = Inr summary
         \<and> distinct (map fst summary)
         \<and> fst ` set summary = category ` set xs
         \<and> (\<forall>c. map_of summary c =
                (if c \<in> category ` set xs
                 then Some (py_sum fadd (map amount [e \<leftarrow> xs. category e = c]))
                 else None))))
   \<and> (fst (filter_expenses year month None None s) = Inl err \<longrightarrow>
        fst (get_summary fadd year month s) = Inl err)"
proof (intro conjI impI)
  let ?loop = "foldl (\<lambda>summary e. dict_set (category e)
      (fadd (dict_get summary (category e) 0) (amount e)) summary) []"
  assume f: "fst (filter_expenses year month None None s) = Inr xs"
  then have g: "fst (get_summary fadd year month s) = Inr (?loop xs)"
    by (cases "filter_expenses year month None None s") (simp add: get_summary_def)
  have keys: "fst ` set (?loop xs) = category ` set xs"
    using summary_loop_keys [of fadd "[]" xs] by simp
  have dist: "distinct (map fst (?loop xs))"
    using summary_loop_distinct [of "[]" fadd xs] by simp
  have tot: "map_of (?loop xs) c =
      (if c \<in> category ` set xs
       then Some (py_sum fadd (map amount [e \<leftarrow> xs. category e = c])) else None)" for c
  proof (cases "c \<in> category ` set xs")
    case True
    with keys have "map_of (?loop xs) c \<noteq> None" by (simp add: map_of_eq_None_iff)
    then obtain v where v: "map_of (?loop xs) c = Some v" by auto
    with summary_loop_total [of fadd "[]" xs c]
    have "v = py_sum fadd (map amount [e \<leftarrow> xs. category e = c])"
      by (simp add: dict_get_def py_sum_def)
    with v True show ?thesis by simp
  next
    case False
    with keys show ?thesis by (simp add: map_of_eq_None_iff)
  qed
  from g keys dist tot
  show "\<exists>summary. fst (get_summary fadd year month s) = Inr summary
         \<and> distinct (map fst summary)
         \<and> fst ` set summary = category ` set xs
         \<and> (\<forall>c. map_of summary c =
                (if c \<in> category ` set xs
                 then Some (py_sum fadd (map amount [e \<leftarrow> xs. category e = c]))
                 else None))" by blast
next
  assume "fst (filter_expenses year month None None s) = Inl err"
  then show "fst (get_summary fadd year month s) = Inl err"
    by (cases "filter_expenses year month None None s") (simp add: get_summary_def)
qed

text \<open>Dates of the sample ledgers.\<close>

lemma strptime_evals:
  "strptime ''2026-11-01'' = Inr (Datetime 2026 11 1)"
  "strptime ''2026-11-02'' = Inr (Datetime 2026 11 2)"
  "strptime ''2026-11-03'' = Inr (Datetime 2026 11 3)"
  "strptime ''2026-10-03'' = Inr (Datetime 2026 10 3)"
  "strptime ''soon'' = Inl ValueError"
  by (simp_all add: strptime_def parse_year_def parse_month_def parse_day_def digit_val_def mk_date_def
      valid_date_def days_in_month_def is_leap_def)

lemma floor_half: "\<lfloor>1 / 2 :: rat\<rfloor> = 0"
  by (rule floor_unique) simp_all

theorem get_summary_totals_witness:
  "fst (filter_expenses (Some 2026) (Some 11) None None abc) = Inr (take 3 (expenses abc))
   \<and> fst (get_summary (+) (Some 2026) (Some 11) abc) = Inr [(''A'', 30), (''B'', 5)]
   \<and> fst (get_summary floor_add (Some 2026) (Some 11) halves) = Inr [(''A'', 0)]
   \<and> fst (filter_expenses (Some 2026) None None None
            (abc\<lparr>expenses := [lunch\<lparr>date := ''soon''\<rparr>]\<rparr>)) = Inl ValueError
   \<and> fst (get_summary (+) (Some 2026) None
            (abc\<lparr>expenses := [lunch\<lparr>date := ''soon''\<rparr>]\<rparr>)) = Inl ValueError"
  using
    get_summary_totals [of "Some 2026" "Some 11" abc "take 3 (expenses abc)" "(+)" ValueError]
    get_summary_totals [of "Some 2026" "Some 11" halves "expenses halves" floor_add ValueError]
    get_summary_totals [of "Some 2026" None "abc\<lparr>expenses := [lunch\<lparr>date := ''soon''\<rparr>]\<rparr>"
      "[]" "(+)" ValueError]
  by (simp add: get_summary_def filter_expenses_def given_int_def given_str_def year_is_def
      month_is_def strptime_evals dict_get_def abc_def halves_def floor_add_def floor_half
      py_sum_def new_tracker_def world0_def lunch_def)

subsection \<open>Currency conversion\<close>





subsection \<open>Saving and loading\<close>

lemma those_map_Some: "those (map Some xs) = Some xs"
  by (induction xs) simp_all

lemma those_Some: "those xs = Some ys \<Longrightarrow> xs = map Some ys"
  by (induction xs arbitrary: ys) (auto split: option.splits)

lemma Expense_kwargs_to_dict:
  "date e \<noteq> [] \<Longrightarrow> Expense_kwargs now (JObj (to_dict e)) = Inr (Some e)"
  by (simp add: Expense_kwargs_def to_dict_def obj_get_last Expense_of_values_def str_field_def
      Expense_def)

lemma map_raising_to_dict:
  "(\<And>e. e \<in> set es \<Longrightarrow> date e \<noteq> []) \<Longrightarrow>
   map_raising (Expense_kwargs now) (map (\<lambda>e. JObj (to_dict e)) es) = Inr (map Some es)"
  by (induction es) (simp_all add: Expense_kwargs_to_dict)

lemma map_raising_any:
  "(\<And>y err. f y = Inl err \<Longrightarrow> err = err0) \<Longrightarrow> x \<in> set xs \<Longrightarrow> f x = Inl err0 \<Longrightarrow>
   map_raising f xs = Inl err0"
proof (induction xs)
  case Nil
  from Nil.prems(2) show ?case by simp
next
  case (Cons y ys)
  show ?case
  proof (cases "f y")
    case (Inl err)
    with Cons.prems(1) [of y err] show ?thesis by simp
  next
    case (Inr b)
    with Cons.prems(2,3) have "x \<in> set ys" by auto
    with Cons.IH Cons.prems(1,3) have "map_raising f ys = Inl err0" by blast
    with Inr show ?thesis by simp
  qed
qed

lemma map_raising_length:
  "map_raising f xs = Inr ys \<Longrightarrow> length ys = length xs"
  by (induction xs arbitrary: ys) (auto split: sum.splits)

lemma load_expenses_of_dump:
  assumes "files s (filename s) = Some (Json (JArr (map (\<lambda>e. JObj (to_dict e)) es)))"
    and "\<And>e. e \<in> set es \<Longrightarrow> date e \<noteq> []"
  shows "load_expenses now s = (Inr (), s\<lparr>expenses := es\<rparr>)"
  using assms by (simp add: load_expenses_def py_iter_def map_raising_to_dict those_map_Some)

lemma strftime_nonempty: "strftime t \<noteq> []"
  by (simp add: strftime_def two_digits_def)

lemma Expense_date_nonempty: "date (Expense now a c t d p cur) \<noteq> []"
  by (simp add: Expense_def strftime_nonempty split: option.splits)

lemma Expense_kwargs_date_nonempty: "Expense_kwargs now j = Inr (Some e) \<Longrightarrow> date e \<noteq> []"
  by (auto simp: Expense_kwargs_def Expense_of_values_def Expense_date_nonempty
      split: json.splits if_splits option.splits)

text \<open>
  C6. Records built by \<^verbatim>\<open>Expense\<close> have a non-empty date
  (\<open>Expense_date_nonempty\<close>), and the constructor gives the tracker the file name
  \<^verbatim>\<open>username_expenses.json\<close>. For such a ledger and record, \<^verbatim>\<open>add_expense\<close>
  leaves the old records followed by the new one in memory, and a tracker created
  afterwards for the same user, at any later time, loads exactly that sequence from the
  file; whether the budget check fires or raises makes no difference. The same holds
  after \<^verbatim>\<open>delete_expense\<close>: the file holds the records that remain. Reading back what
  \<^verbatim>\<open>save_expenses\<close> wrote changes nothing: save followed by load is the identity.
\<close>

theorem add_expense_then_reload:
  assumes "\<forall>e \<in> set (expenses s). date e \<noteq> []" and "date r \<noteq> []"
    and "filename s = username s @ ''_expenses.json''"
  shows "expenses (snd (add_expense fadd now r s)) = expenses s @ [r]
     \<and> load_expenses later (new_tracker (username s) (snd (add_expense fadd now r s))) =
         (Inr (), (new_tracker (username s) (snd (add_expense fadd now r s)))\<lparr>expenses := expenses s @ [r]\<rparr>)
     \<and> load_expenses later (new_tracker (username s) (snd (delete_expense d c a t s))) =
         (Inr (), (new_tracker (username s) (snd (delete_expense d c a t s)))
                    \<lparr>expenses := expenses (snd (delete_expense d c a t s))\<rparr>)
     \<and> load_expenses later (snd (save_expenses s)) = (Inr (), snd (save_expenses s))"
proof (intro conjI)
  let ?d = "new_tracker (username s) (snd (delete_expense d c a t s))"
  have "files ?d (filename ?d) =
      Some (Json (JArr (map (\<lambda>e. JObj (to_dict e)) (expenses (snd (delete_expense d c a t s))))))"
    using assms(3) by (simp add: new_tracker_def delete_expense_def save_expenses_def)
  moreover have "\<And>e. e \<in> set (expenses (snd (delete_expense d c a t s))) \<Longrightarrow> date e \<noteq> []"
    using assms(1) by (simp add: delete_expense_def save_expenses_def)
  ultimately show "load_expenses later ?d =
      (Inr (), ?d\<lparr>expenses := expenses (snd (delete_expense d c a t s))\<rparr>)"
    by (rule load_expenses_of_dump)
next
  show "expenses (snd (add_expense fadd now r s)) = expenses s @ [r]"
    by (simp add: add_expense_frame)
  let ?t = "new_tracker (username s) (snd (add_expense fadd now r s))"
  have "files ?t (filename ?t) = Some (Json (JArr (map (\<lambda>e. JObj (to_dict e)) (expenses s @ [r]))))"
    using assms(3) by (simp add: new_tracker_def add_expense_frame)
  moreover have "\<And>e. e \<in> set (expenses s @ [r]) \<Longrightarrow> date e \<noteq> []"
    using assms(1,2) by auto
  ultimately show "load_expenses later ?t = (Inr (), ?t\<lparr>expenses := expenses s @ [r]\<rparr>)"
    by (rule load_expenses_of_dump)
  have "load_expenses later (snd (save_expenses s)) =
      (Inr (), (snd (save_expenses s))\<lparr>expenses := expenses s\<rparr>)"
    using assms(1) by (intro load_expenses_of_dump) (simp_all add: save_expenses_def)
  then show "load_expenses later (snd (save_expenses s)) = (Inr (), snd (save_expenses s))"
    by (simp add: save_expenses_def)
qed


theorem add_expense_then_reload_witness:
  "[e \<leftarrow> expenses budgeted. date e = []] = [] \<and> date snack \<noteq> []
   \<and> filename budgeted = username budgeted @ ''_expenses.json''
   \<and> expenses (snd (add_expense (+) (Datetime 2026 11 3) snack budgeted)) = [lunch, snack]
   \<and> expenses (snd (load_expenses (Datetime 2026 12 1)
        (new_tracker ''asha'' (snd (add_expense (+) (Datetime 2026 11 3) snack budgeted))))) =
       [lunch, snack]"
  using add_expense_then_reload [where s = budgeted and r = snack and fadd = "(+)"
      and now = "Datetime 2026 11 3" and later = "Datetime 2026 12 1"]
  by (simp add: budgeted_def new_tracker_def world0_def lunch_def snack_def)

lemma Expense_kwargs_raises: "Expense_kwargs now j = Inl err \<Longrightarrow> err = TypeError"
  by (auto simp: Expense_kwargs_def split: json.splits if_splits option.splits)

lemma Expense_kwargs_TypeError:
  "\<forall>kvs. bad \<noteq> JObj kvs \<Longrightarrow> Expense_kwargs now bad = Inl TypeError"
  "bad = JObj kvs \<Longrightarrow> ''amount'' \<notin> fst ` set kvs \<Longrightarrow> Expense_kwargs now bad = Inl TypeError"
  "bad = JObj kvs \<Longrightarrow> ''category'' \<notin> fst ` set kvs \<Longrightarrow> Expense_kwargs now bad = Inl TypeError"
  "bad = JObj kvs \<Longrightarrow> ''description'' \<notin> fst ` set kvs \<Longrightarrow>
     Expense_kwargs now bad = Inl TypeError"
  "bad = JObj kvs \<Longrightarrow> (k, v) \<in> set kvs \<Longrightarrow>
   k \<notin> {''amount'', ''category'', ''description'', ''date'', ''payment_method'', ''currency''}
     \<Longrightarrow> Expense_kwargs now bad = Inl TypeError"
proof -
  show "\<forall>kvs. bad \<noteq> JObj kvs \<Longrightarrow> Expense_kwargs now bad = Inl TypeError"
    by (cases bad) (simp_all add: Expense_kwargs_def)
  show "bad = JObj kvs \<Longrightarrow> ''amount'' \<notin> fst ` set kvs \<Longrightarrow>
      Expense_kwargs now bad = Inl TypeError"
    using obj_get_None [of kvs "''amount''"] by (simp add: Expense_kwargs_def)
  show "bad = JObj kvs \<Longrightarrow> ''category'' \<notin> fst ` set kvs \<Longrightarrow>
      Expense_kwargs now bad = Inl TypeError"
    using obj_get_None [of kvs "''category''"]
    by (simp add: Expense_kwargs_def split: option.splits)
  show "bad = JObj kvs \<Longrightarrow> ''description'' \<notin> fst ` set kvs \<Longrightarrow>
      Expense_kwargs now bad = Inl TypeError"
    using obj_get_None [of kvs "''description''"]
    by (simp add: Expense_kwargs_def split: option.splits)
  show "bad = JObj kvs \<Longrightarrow> (k, v) \<in> set kvs \<Longrightarrow>
      k \<notin> {''amount'', ''category'', ''description'', ''date'', ''payment_method'', ''currency''}
      \<Longrightarrow> Expense_kwargs now bad = Inl TypeError"
    by (auto simp: Expense_kwargs_def list_all_iff)
qed

lemma load_expenses_new_tracker:
  "load_expenses now (new_tracker name w) =
     (case files w (name @ ''_expenses.json'') of
        None \<Rightarrow> (Inr (), new_tracker name w)
      | Some NotJson \<Rightarrow> (Inl JSONDecodeError, new_tracker name w)
      | Some (Json data) \<Rightarrow>
          (case py_iter data of
             Inl err \<Rightarrow> (Inl err, new_tracker name w)
           | Inr items \<Rightarrow>
               (case map_raising (Expense_kwargs now) items of
                  Inl err \<Rightarrow> (Inl err, new_tracker name w)
                | Inr built \<Rightarrow>
                    (case those built of
                       None \<Rightarrow> (Inl NotModelled, new_tracker name w)
                     | Some es \<Rightarrow> (Inr (), (new_tracker name w)\<lparr>expenses := es\<rparr>)))))"
  by (simp add: load_expenses_def new_tracker_def
      split: option.splits file_data.splits sum.splits)

lemma ExpenseTracker_propagates:
  "fst (load_expenses now (new_tracker name w)) = Inl err \<Longrightarrow>
   fst (ExpenseTracker now name w) = Inl err"
  by (cases "load_expenses now (new_tracker name w)") (simp add: ExpenseTracker_def)

lemma py_iter_nonempty_object:
  "\<exists>k rest. py_iter (JObj (kv # kvs)) = Inr (JStr k # rest)"
proof -
  have "fst ` set (py_dict (kv # kvs)) \<noteq> {}" by (simp add: keys_py_dict)
  then obtain p ps where "py_dict (kv # kvs) = p # ps" by (cases "py_dict (kv # kvs)") auto
  then show ?thesis by (simp add: py_iter_def)
qed

text \<open>
  C9, as the claim states it, fails: a record file that holds the empty JSON object is
  not the array of records that a ledger file is, yet the constructor raises nothing and
  the tracker starts with the empty ledger.
\<close>

theorem load_expenses_empty_object_silent:
  "files empty_object ''asha_expenses.json'' = Some (Json (JObj []))
   \<and> fst (ExpenseTracker (Datetime 2026 11 3) ''asha'' empty_object) = Inr ()
   \<and> expenses (snd (ExpenseTracker (Datetime 2026 11 3) ''asha'' empty_object)) = []"
  by (simp add: ExpenseTracker_def load_expenses_def py_iter_def py_dict_def
      load_budgets_def budget_file_def new_tracker_def empty_object_def world0_def)

text \<open>
  C9, amended. A new tracker whose record file is absent has the empty ledger and no
  error; with the budget file absent too, the constructor succeeds with empty ledger and
  budget map. A record file that holds the empty JSON object or the empty JSON string
  also loads as the empty ledger, without error. \<^verbatim>\<open>load_expenses\<close>, and with it the
  constructor, raises in these cases: \<^verbatim>\<open>JSONDecodeError\<close> when the text is not
  JSON; \<^verbatim>\<open>TypeError\<close> when the document is null, a boolean, a number, a non-empty
  object or a non-empty string; \<^verbatim>\<open>TypeError\<close> when any item of the array is not an
  object, lacks \<^verbatim>\<open>amount\<close>, \<^verbatim>\<open>category\<close> or \<^verbatim>\<open>description\<close>, or has a key that
  is no parameter of \<^verbatim>\<open>Expense\<close>, whatever the other items are. A load that returns
  on an array has built one record from every item: no ledger is partial.
\<close>

theorem load_expenses_absent_or_malformed:
  "(files w (name @ ''_expenses.json'') = None \<longrightarrow>
      fst (load_expenses now (new_tracker name w)) = Inr ()
      \<and> expenses (snd (load_expenses now (new_tracker name w))) = [])
   \<and> (files w (name @ ''_expenses.json'') = None \<and> files w (name @ ''_budgets.json'') = None \<longrightarrow>
      fst (ExpenseTracker now name w) = Inr ()
      \<and> expenses (snd (ExpenseTracker now name w)) = []
      \<and> budgets (snd (ExpenseTracker now name w)) = [])
   \<and> (files w (name @ ''_expenses.json'') = Some (Json (JObj []))
        \<or> files w (name @ ''_expenses.json'') = Some (Json (JStr [])) \<longrightarrow>
      fst (load_expenses now (new_tracker name w)) = Inr ()
      \<and> expenses (snd (load_expenses now (new_tracker name w))) = [])
   \<and> (files w (name @ ''_expenses.json'') = Some NotJson \<longrightarrow>
      fst (load_expenses now (new_tracker name w)) = Inl JSONDecodeError
      \<and> fst (ExpenseTracker now name w) = Inl JSONDecodeError)
   \<and> (files w (name @ ''_expenses.json'') = Some (Json data)
        \<and> (data \<in> {JNull} \<union> range JBool \<union> range JNum
           \<or> (\<exists>kv kvs. data = JObj (kv # kvs)) \<or> (\<exists>c cs. data = JStr (c # cs))) \<longrightarrow>
      fst (load_expenses now (new_tracker name w)) = Inl TypeError
      \<and> fst (ExpenseTracker now name w) = Inl TypeError)
   \<and> (files w (name @ ''_expenses.json'') = Some (Json (JArr items)) \<and> bad \<in> set items
        \<and> ((\<forall>kvs. bad \<noteq> JObj kvs)
           \<or> (\<exists>kvs. bad = JObj kvs \<and>
                (''amount'' \<notin> fst ` set kvs \<or> ''category'' \<notin> fst ` set kvs \<or>
                 ''description'' \<notin> fst ` set kvs))
           \<or> (\<exists>kvs k v. bad = JObj kvs \<and> (k, v) \<in> set kvs \<and>
                k \<notin> {''amount'', ''category'', ''description'', ''date'',
                       ''payment_method'', ''currency''})) \<longrightarrow>
      fst (load_expenses now (new_tracker name w)) = Inl TypeError
      \<and> fst (ExpenseTracker now name w) = Inl TypeError)
   \<and> (files w (name @ ''_expenses.json'') = Some (Json (JArr items))
        \<and> fst (load_expenses now (new_tracker name w)) = Inr () \<longrightarrow>
      map_raising (Expense_kwargs now) items =
        Inr (map Some (expenses (snd (load_expenses now (new_tracker name w)))))
      \<and> length (expenses (snd (load_expenses now (new_tracker name w)))) = length items)"
proof (intro conjI impI; (elim conjE)?)
  assume "files w (name @ ''_expenses.json'') = None"
  then show "fst (load_expenses now (new_tracker name w)) = Inr ()"
    and "expenses (snd (load_expenses now (new_tracker name w))) = []"
    by (simp_all add: load_expenses_new_tracker) (simp add: new_tracker_def)
next
  assume a: "files w (name @ ''_expenses.json'') = None" "files w (name @ ''_budgets.json'') = None"
  then have "ExpenseTracker now name w = (Inr (), new_tracker name w)"
    by (simp add: ExpenseTracker_def load_expenses_new_tracker load_budgets_def budget_file_def)
      (simp add: new_tracker_def)
  then show "fst (ExpenseTracker now name w) = Inr ()"
    and "expenses (snd (ExpenseTracker now name w)) = []"
    and "budgets (snd (ExpenseTracker now name w)) = []"
    by (simp_all add: new_tracker_def)
next
  assume "files w (name @ ''_expenses.json'') = Some (Json (JObj []))
        \<or> files w (name @ ''_expenses.json'') = Some (Json (JStr []))"
  then have "load_expenses now (new_tracker name w) =
      (Inr (), (new_tracker name w)\<lparr>expenses := []\<rparr>)"
    by (auto simp: load_expenses_new_tracker py_iter_def py_dict_def)
  then show "fst (load_expenses now (new_tracker name w)) = Inr ()"
    and "expenses (snd (load_expenses now (new_tracker name w))) = []"
    by simp_all
next
  assume "files w (name @ ''_expenses.json'') = Some NotJson"
  then show l: "fst (load_expenses now (new_tracker name w)) = Inl JSONDecodeError"
    by (simp add: load_expenses_new_tracker)
  then show "fst (ExpenseTracker now name w) = Inl JSONDecodeError"
    by (rule ExpenseTracker_propagates)
next
  assume f: "files w (name @ ''_expenses.json'') = Some (Json data)"
    and d: "data \<in> {JNull} \<union> range JBool \<union> range JNum
           \<or> (\<exists>kv kvs. data = JObj (kv # kvs)) \<or> (\<exists>c cs. data = JStr (c # cs))"
  from d have "py_iter data = Inl TypeError \<or> (\<exists>k rest. py_iter data = Inr (JStr k # rest))"
    using py_iter_nonempty_object by (auto simp: py_iter_def)
  with f show l: "fst (load_expenses now (new_tracker name w)) = Inl TypeError"
    by (auto simp: load_expenses_new_tracker Expense_kwargs_def)
  then show "fst (ExpenseTracker now name w) = Inl TypeError"
    by (rule ExpenseTracker_propagates)
next
  assume f: "files w (name @ ''_expenses.json'') = Some (Json (JArr items))"
    and i: "bad \<in> set items"
    and b: "(\<forall>kvs. bad \<noteq> JObj kvs)
           \<or> (\<exists>kvs. bad = JObj kvs \<and>
                (''amount'' \<notin> fst ` set kvs \<or> ''category'' \<notin> fst ` set kvs \<or>
                 ''description'' \<notin> fst ` set kvs))
           \<or> (\<exists>kvs k v. bad = JObj kvs \<and> (k, v) \<in> set kvs \<and>
                k \<notin> {''amount'', ''category'', ''description'', ''date'',
                       ''payment_method'', ''currency''})"
  from b have "Expense_kwargs now bad = Inl TypeError"
    apply (elim disjE exE conjE)
        apply (erule Expense_kwargs_TypeError(1))
       apply (erule (1) Expense_kwargs_TypeError(2))
      apply (erule (1) Expense_kwargs_TypeError(3))
     apply (erule (1) Expense_kwargs_TypeError(4))
    apply (erule (2) Expense_kwargs_TypeError(5))
    done
  with i have "map_raising (Expense_kwargs now) items = Inl TypeError"
    using Expense_kwargs_raises by (intro map_raising_any [where x = bad])
  with f show l: "fst (load_expenses now (new_tracker name w)) = Inl TypeError"
    by (simp add: load_expenses_new_tracker py_iter_def)
  then show "fst (ExpenseTracker now name w) = Inl TypeError"
    by (rule ExpenseTracker_propagates)
next
  assume f: "files w (name @ ''_expenses.json'') = Some (Json (JArr items))"
    and ok: "fst (load_expenses now (new_tracker name w)) = Inr ()"
  then show m: "map_raising (Expense_kwargs now) items =
        Inr (map Some (expenses (snd (load_expenses now (new_tracker name w)))))"
    by (auto simp: load_expenses_new_tracker py_iter_def dest: those_Some
        split: sum.splits option.splits)
  then have "length (map Some (expenses (snd (load_expenses now (new_tracker name w))))) =
      length items"
    by (rule map_raising_length)
  then show "length (expenses (snd (load_expenses now (new_tracker name w)))) = length items"
    by simp
qed

theorem load_expenses_absent_or_malformed_witness:
  "files world0 (''asha'' @ ''_expenses.json'') = None
   \<and> files world0 (''asha'' @ ''_budgets.json'') = None
   \<and> fst (ExpenseTracker (Datetime 2026 11 3) ''asha'' world0) = Inr ()
   \<and> expenses (snd (ExpenseTracker (Datetime 2026 11 3) ''asha'' world0)) = []
   \<and> files corrupt (''asha'' @ ''_expenses.json'') = Some NotJson
   \<and> fst (ExpenseTracker (Datetime 2026 11 3) ''asha'' corrupt) = Inl JSONDecodeError
   \<and> fst (ExpenseTracker (Datetime 2026 11 3) ''asha'' half_good) = Inl TypeError
   \<and> fst (load_expenses (Datetime 2026 11 3) (new_tracker ''asha'' empty_object)) = Inr ()"
proof -
  let ?now = "Datetime 2026 11 3"
  let ?bad = "JObj [(''amount'', JNum 3), (''category'', JStr ''Food'')]"
  have absent: "files world0 (''asha'' @ ''_expenses.json'') = None"
    "files world0 (''asha'' @ ''_budgets.json'') = None"
    by (simp_all add: world0_def)
  have broken: "files corrupt (''asha'' @ ''_expenses.json'') = Some NotJson"
    by (simp add: corrupt_def world0_def)
  have empty: "files empty_object (''asha'' @ ''_expenses.json'') = Some (Json (JObj []))"
    by (simp add: empty_object_def world0_def)
  have half: "files half_good (''asha'' @ ''_expenses.json'') =
      Some (Json (JArr [JObj (to_dict lunch), ?bad]))"
    by (simp add: half_good_def world0_def)
  have missing: "\<exists>kvs. ?bad = JObj kvs \<and>
      (''amount'' \<notin> fst ` set kvs \<or> ''category'' \<notin> fst ` set kvs \<or>
       ''description'' \<notin> fst ` set kvs)"
    by simp
  note t = load_expenses_absent_or_malformed [where now = ?now and name = "''asha''"]
  from absent t [where w = world0]
  have 1: "fst (ExpenseTracker ?now ''asha'' world0) = Inr ()"
    "expenses (snd (ExpenseTracker ?now ''asha'' world0)) = []"
    by simp_all
  from broken t [where w = corrupt]
  have 2: "fst (ExpenseTracker ?now ''asha'' corrupt) = Inl JSONDecodeError"
    by simp
  from half missing
    t [where w = half_good and items = "[JObj (to_dict lunch), ?bad]" and bad = ?bad]
  have 3: "fst (ExpenseTracker ?now ''asha'' half_good) = Inl TypeError"
    by simp
  from empty t [where w = empty_object]
  have 4: "fst (load_expenses ?now (new_tracker ''asha'' empty_object)) = Inr ()"
    by simp
  from absent broken 1 2 3 4 show ?thesis by simp
qed

subsection \<open>Dates and recurring expenses\<close>

lemma digit_cases: "0 \<le> n \<Longrightarrow> n \<le> 9 \<Longrightarrow>
  n = 0 \<or> n = 1 \<or> n = 2 \<or> n = 3 \<or> n = 4 \<or> n = 5 \<or> n = 6 \<or> n = 7 \<or> n = 8 \<or> n = (9::int)"
  by arith

lemma digit_char_props:
  assumes "0 \<le> n" "n \<le> 9"
  shows "digit_val (digit_char n) = Some n" "digit_char n \<noteq> CHR ''-''" "digit_char n \<noteq> CHR '' ''"
  using digit_cases [OF assms]
  by (auto simp: digit_val_def digit_char_def)

lemma four_digits: "1000 * (y div 100 div 10) + 100 * (y div 100 mod 10) + 10 * (y mod 100 div 10) + y mod 100 mod 10 = (y::int)"
proof -
  have "1000 * (y div 100 div 10) + 100 * (y div 100 mod 10) + 10 * (y mod 100 div 10) + y mod 100 mod 10
      = 100 * (10 * (y div 100 div 10) + y div 100 mod 10) + (10 * (y mod 100 div 10) + y mod 100 mod 10)"
    by (simp only: distrib_left mult.assoc [symmetric] add.assoc)
  also have "\<dots> = 100 * (y div 100) + y mod 100"
    by (simp only: mult_div_mod_eq)
  also have "\<dots> = y"
    by (simp only: mult_div_mod_eq)
  finally show ?thesis .
qed

lemma parse_year_strftime:
  assumes "0 \<le> y" "y \<le> 9999"
  shows "parse_year (two_digits (y div 100) @ two_digits (y mod 100)) = Some y"
proof -
  let ?a = "y div 100 div 10" and ?b = "y div 100 mod 10"
    and ?c = "y mod 100 div 10" and ?d = "y mod 100 mod 10"
  have r: "0 \<le> ?a" "?a \<le> 9" "0 \<le> ?b" "?b \<le> 9" "0 \<le> ?c" "?c \<le> 9" "0 \<le> ?d" "?d \<le> 9"
    using assms by simp_all
  have "1000 * ?a + 100 * ?b + 10 * ?c + ?d = y" by (rule four_digits)
  then show ?thesis
    by (simp add: parse_year_def two_digits_def digit_char_props r)
qed

lemma parse_month_two_digits:
  assumes "1 \<le> m" "m \<le> 12"
  shows "parse_month (two_digits m) = Some m"
proof -
  have r: "0 \<le> m div 10" "m div 10 \<le> 9" "0 \<le> m mod 10" "m mod 10 \<le> 9"
    using assms by simp_all
  have c: "(m div 10 = 1 \<and> m mod 10 \<le> 2) \<or> (m div 10 = 0 \<and> 1 \<le> m mod 10)"
    using assms by arith
  have "10 * (m div 10) + m mod 10 = m" by simp
  with c show ?thesis
    by (simp add: parse_month_def two_digits_def digit_char_props r)
qed

lemma parse_day_two_digits:
  assumes "1 \<le> d" "d \<le> 31"
  shows "parse_day (two_digits d) = Some d"
proof -
  have r: "0 \<le> d div 10" "d div 10 \<le> 9" "0 \<le> d mod 10" "d mod 10 \<le> 9"
    using assms by simp_all
  have c: "(d div 10 = 3 \<and> d mod 10 \<le> 1) \<or> d div 10 = 1 \<or> d div 10 = 2 \<or>
           (d div 10 = 0 \<and> 1 \<le> d mod 10)"
    using assms by arith
  have "10 * (d div 10) + d mod 10 = d" by simp
  with c show ?thesis
    by (simp add: parse_day_def two_digits_def digit_char_props r)
qed

lemma days_in_month_le: "days_in_month y m \<le> 31"
  by (simp add: days_in_month_def)

lemma strptime_strftime:
  assumes "valid_date y m d"
  shows "strptime (strftime (Datetime y m d)) = Inr (Datetime y m d)"
proof -
  from assms have y: "0 \<le> y" "y \<le> 9999" and m: "1 \<le> m" "m \<le> 12" and d: "1 \<le> d" "d \<le> 31"
    using days_in_month_le [of y m] by (simp_all add: valid_date_def)
  have rm: "0 \<le> m div 10" "m div 10 \<le> 9" "0 \<le> m mod 10" "m mod 10 \<le> 9"
    using m by simp_all
  have nm: "digit_char (m div 10) \<noteq> CHR ''-''" "digit_char (m mod 10) \<noteq> CHR ''-''"
    by (simp_all add: digit_char_props rm)
  have "strptime (strftime (Datetime y m d)) =
      (case (parse_year (two_digits (y div 100) @ two_digits (y mod 100)),
             parse_month (two_digits m), parse_day (two_digits d)) of
         (Some y', Some m', Some d') \<Rightarrow> mk_date y' m' d'
       | _ \<Rightarrow> Inl ValueError)"
    using nm by (simp add: strptime_def strftime_def two_digits_def Let_def)
  then show ?thesis
    using assms by (simp add: parse_year_strftime parse_month_two_digits parse_day_two_digits
        y m d mk_date_def)
qed


lemma recurring_target_replace:
  assumes "is_date today" and "is_date (recurring_target today day_of_month)"
  shows "(if dt_day today \<le> day_of_month
          then replace today None None (Some day_of_month)
          else
            let next_month = dt_month today mod 12 + 1;
                next_year = dt_year today + (if next_month = 1 then 1 else 0)
            in replace today (Some next_year) (Some next_month) (Some day_of_month))
         = Inr (recurring_target today day_of_month)"
proof (cases "dt_day today \<le> day_of_month")
  case True
  with assms(2) show ?thesis
    by (simp add: replace_def mk_date_def recurring_target_def is_date_def)
next
  case False
  from assms(1) have m: "1 \<le> dt_month today" "dt_month today \<le> 12"
    by (simp_all add: is_date_def valid_date_def)
  show ?thesis
  proof (cases "dt_month today = 12")
    case True
    with False assms(2) show ?thesis
      by (simp add: replace_def mk_date_def recurring_target_def is_date_def Let_def)
  next
    case ne: False
    with m have "dt_month today mod 12 = dt_month today" by simp
    with False ne m assms(2) show ?thesis
      by (simp add: replace_def mk_date_def recurring_target_def is_date_def Let_def)
  qed
qed

text \<open>
  C4. Let today be a calendar date (of a four-digit year) and let the given day exist in
  the target month: this month when the day is today's or later, otherwise the next
  month, which is January of the next year when this month is December. Then
  \<^verbatim>\<open>add_recurring_expense\<close> appends one record, with the given amount, category and
  description, payment method \<^verbatim>\<open>Cash\<close>, currency \<^verbatim>\<open>INR\<close>, and the target date
  written as \<^verbatim>\<open>YYYY-MM-DD\<close>; the written date parses back to the target date.
\<close>

theorem add_recurring_expense_date:
  assumes "is_date today" and "1000 \<le> dt_year today"
    and "is_date (recurring_target today day_of_month)"
  shows "expenses (snd (add_recurring_expense fadd today a c t day_of_month s)) =
           expenses s @
           [\<lparr>amount = a, category = c, description = t,
              date = strftime (recurring_target today day_of_month),
              payment_method = ''Cash'', currency = ''INR''\<rparr>]
         \<and> strptime (strftime (recurring_target today day_of_month)) =
             Inr (recurring_target today day_of_month)"
proof
  from assms(3) show "strptime (strftime (recurring_target today day_of_month)) =
      Inr (recurring_target today day_of_month)"
    using strptime_strftime [of "dt_year (recurring_target today day_of_month)"
        "dt_month (recurring_target today day_of_month)"
        "dt_day (recurring_target today day_of_month)"]
    by (simp add: is_date_def)
  have "add_recurring_expense fadd today a c t day_of_month s =
      add_expense fadd today
        (Expense today a c t (Some (strftime (recurring_target today day_of_month))) ''Cash'' ''INR'') s"
    unfolding add_recurring_expense_def recurring_target_replace [OF assms(1,3)] by simp
  then show "expenses (snd (add_recurring_expense fadd today a c t day_of_month s)) =
           expenses s @
           [\<lparr>amount = a, category = c, description = t,
              date = strftime (recurring_target today day_of_month),
              payment_method = ''Cash'', currency = ''INR''\<rparr>]"
    by (simp add: add_expense_frame Expense_def strftime_nonempty)
qed

lemma strftime_evals:
  "strftime (Datetime 2026 11 5) = ''2026-11-05''"
  "strftime (Datetime 2026 12 5) = ''2026-12-05''"
  "strftime (Datetime 2027 1 5) = ''2027-01-05''"
  by (simp_all add: strftime_def two_digits_def digit_char_def)

theorem add_recurring_expense_date_witness:
  "is_date (Datetime 2026 11 10) \<and> is_date (Datetime 2026 11 3) \<and> is_date (Datetime 2026 12 10)
   \<and> map date (expenses (snd (add_recurring_expense (+) (Datetime 2026 11 10) 100 ''Rent'' ''rent'' 5 world0)))
       = [''2026-12-05'']
   \<and> map date (expenses (snd (add_recurring_expense (+) (Datetime 2026 11 3) 100 ''Rent'' ''rent'' 5 world0)))
       = [''2026-11-05'']
   \<and> map date (expenses (snd (add_recurring_expense (+) (Datetime 2026 12 10) 100 ''Rent'' ''rent'' 5 world0)))
       = [''2027-01-05'']"
  using add_recurring_expense_date [where today = "Datetime 2026 11 10" and day_of_month = 5
      and fadd = "(+)" and a = 100 and c = "''Rent''" and t = "''rent''" and s = world0]
    add_recurring_expense_date [where today = "Datetime 2026 11 3" and day_of_month = 5
      and fadd = "(+)" and a = 100 and c = "''Rent''" and t = "''rent''" and s = world0]
    add_recurring_expense_date [where today = "Datetime 2026 12 10" and day_of_month = 5
      and fadd = "(+)" and a = 100 and c = "''Rent''" and t = "''rent''" and s = world0]
  by (simp add: is_date_def valid_date_def days_in_month_def is_leap_def recurring_target_def
      strftime_evals world0_def)

end
